theory Spec2Isabelle
  imports Main
begin

section \<open>The LSP facade of the Go language server (src-vscode-mock/lsp-server.ts)\<close>

text \<open>
  The class \<open>LspServer\<close> keeps a map of opened documents and drives the mocked editor
  host (\<open>window.visibleTextEditors\<close>, \<open>window.activeTextEditor\<close>). Every handler
  is embedded as a function from the state before the call to its outcome and the state
  after it.

  Conventions of the embedding:
  \<^item> JavaScript objects have identity. An object is a value that carries the address
    it was allocated at; \<open>===\<close> on two objects compares addresses. The state holds
    the next free address.
  \<^item> A field that the file assigns after construction (\<open>TextEditor.selection\<close>) is
    a map from the object's address to the field's value, so every alias of the object
    sees the assignment.
  \<^item> A \<open>throw\<close> is the left injection of a sum. A promise that has settled is
    \<open>Resolved\<close> or \<open>Rejected\<close>. A handler runs to the point where its promise
    settles: the interleaving of two pending requests is not part of the model.
  \<^item> Calls that leave the file (the build, the client notification, the mutation of a
    document, a command) are appended to the field \<open>effects\<close> in the order in which
    they happen. Calls of the logger are left out; \<open>uriToPath\<close> only feeds the logger
    and is left out with it.
  \<^item> Providers, commands and the methods of \<open>TextDocument\<close> are defined outside this
    file. They are the fields of the record \<open>env\<close>, each a function to a failure or a
    result, and every theorem holds for every such record. They are taken not to assign
    \<open>window.activeTextEditor\<close>, \<open>window.visibleTextEditors\<close> or the server's
    private fields.
\<close>

subsection \<open>Values\<close>

type_synonym addr = nat

type_synonym Position = "nat \<times> nat"

record Range =
  range_start :: Position
  range_end :: Position

text \<open>A value of vscode-uri's class: \<open>Uri.parse\<close> builds a new object on every call.\<close>

datatype Uri = Uri (uri_addr: addr) (uri_value: string)

text \<open>\<open>lsp.TextDocumentItem\<close>, the payload of didOpen.\<close>

record TextDocumentItem =
  item_uri :: string
  item_languageId :: string
  item_version :: int
  item_text :: string

text \<open>
  Modelled from the spec: the class \<open>TextDocument\<close> (./text-document) is not among the
  sources. A document is identified by its URI and is one object from open to close. The
  file reads \<open>document.uri\<close> as a \<open>Uri\<close> object
  (\<open>uriToStringUri(document.uri)\<close>, \<open>editor.document.uri === document.uri\<close>), so the
  object holds one \<open>Uri\<close> built from the item's URI when the document is constructed.
  Text and version are changed by \<open>apply\<close> and \<open>save\<close> only, which are recorded as
  effects on the object.
\<close>

record TextDocument =
  doc_addr :: addr
  doc_uri :: Uri
  doc_item :: TextDocumentItem

text \<open>
  Modelled from the spec: the class \<open>TextEditor\<close> (./text-editor) is not among the
  sources. An editor is a view over exactly one document plus a selection. The selection
  lives in the state (field \<open>selection\<close>), keyed by \<open>editor_addr\<close>.
\<close>

record TextEditor =
  editor_addr :: addr
  document :: TextDocument

text \<open>
  Modelled from the spec: the constructors in
  \<open>new Selection(new Range(selection.start, selection.end))\<close> are not among the
  sources. The active editor's selection is overwritten with the given range: the value
  stored is what the two property reads gave, \<open>None\<close> (JavaScript's undefined) for a
  property that the value does not have.
\<close>

datatype Selection = Selection "Position option" "Position option"

text \<open>
  The elements of \<open>params.arguments\<close> are of type \<open>any\<close>. The values that the
  handler tells apart: undefined and null, booleans, strings, and range objects.
\<close>

datatype js_value = Undefined | Null | Bool bool | Str string | RangeVal Range

fun truthy :: "js_value \<Rightarrow> bool" where
  "truthy Undefined = False"
| "truthy Null = False"
| "truthy (Bool b) = b"
| "truthy (Str s) = (s \<noteq> [])"
| "truthy (RangeVal r) = True"

fun to_string :: "js_value \<Rightarrow> string" where
  "to_string Undefined = ''undefined''"
| "to_string Null = ''null''"
| "to_string (Bool b) = (if b then ''true'' else ''false'')"
| "to_string (Str s) = s"
| "to_string (RangeVal r) = ''[object Object]''"

fun prop_start :: "js_value \<Rightarrow> Position option" where
  "prop_start (RangeVal r) = Some (range_start r)"
| "prop_start v = None"

fun prop_end :: "js_value \<Rightarrow> Position option" where
  "prop_end (RangeVal r) = Some (range_end r)"
| "prop_end v = None"

text \<open>\<open>lsp.ErrorCodes\<close> and \<open>lsp.MessageType\<close>.\<close>

datatype ErrorCodes = ParseError | InvalidRequest | MethodNotFound | InvalidParams | InternalError

datatype MessageType = MessageType_Error | MessageType_Warning | MessageType_Info | MessageType_Log

text \<open>
  What can be thrown: \<open>new Error(message)\<close>, the runtime's TypeError,
  \<open>new lsp.ResponseError(code, message, data)\<close>.
\<close>

datatype js_error =
    Error string
  | TypeError string
  | ResponseError ErrorCodes js_error js_error

datatype 'a promise = Resolved 'a | Rejected js_error

text \<open>An \<open>async\<close> method turns a throw of its body into a rejected promise.\<close>

fun async :: "js_error + 'a promise \<Rightarrow> 'a promise" where
  "async (Inl e) = Rejected e"
| "async (Inr p) = p"

fun settle :: "js_error + 'a \<Rightarrow> 'a promise" where
  "settle (Inl e) = Rejected e"
| "settle (Inr x) = Resolved x"

text \<open>The calls that leave the file, as they are observed from outside.\<close>

datatype 'v effect =
    BuildCode bool
  | ShowMessage js_error MessageType
  | DocumentApply TextDocument "'v list" int
  | DocumentSave TextDocument
  | CommandExecuted string "js_value list"

subsection \<open>Results of the providers\<close>

datatype Location = Location Range string

record 'v SymbolInformation =
  symbol_info :: 'v
  symbol_range :: Range
  symbol_location :: "Location option"

record 'v CodeLens =
  lens_info :: 'v
  lens_document :: "TextDocument option"

record 'v CompletionList =
  isIncomplete :: bool
  items :: "'v list"

text \<open>\<open>lsp.Definition\<close> is one location or a list of locations.\<close>

datatype 'v Definition = DefinitionOf 'v | DefinitionList "'v list"

subsection \<open>The server's state\<close>

record InitializeParams =
  rootUri :: string
  rootPath :: "string option"

record 'v server_state =
  initializeParams :: "InitializeParams option"
  workspaceFolders :: "Uri list"
  openedDocumentUris :: "string \<rightharpoonup> TextDocument"
  visibleTextEditors :: "TextEditor list"
  activeTextEditor :: "TextEditor option"
  selection :: "addr \<rightharpoonup> Selection"
  hasStartedInitialBuild :: bool
  next_addr :: addr
  effects :: "'v effect list"

text \<open>
  Modelled from the spec: the module \<open>window\<close> is not among the sources. The active
  state is initialized empty at server start: no active editor, no visible editor. The
  private fields of \<open>LspServer\<close> start as their initializers say (lines 51 and 68).
\<close>

definition server_start :: "'v server_state" where
  "server_start =
     \<lparr> initializeParams = None,
       workspaceFolders = [],
       openedDocumentUris = Map.empty,
       visibleTextEditors = [],
       activeTextEditor = None,
       selection = Map.empty,
       hasStartedInitialBuild = False,
       next_addr = 0,
       effects = [] \<rparr>"

definition emit :: "'v effect list \<Rightarrow> 'v server_state \<Rightarrow> 'v server_state" where
  "emit es st = st\<lparr>effects := effects st @ es\<rparr>"

text \<open>\<open>Uri.parse(value)\<close>: a new object.\<close>

definition Uri_parse :: "string \<Rightarrow> 'v server_state \<Rightarrow> Uri \<times> 'v server_state" where
  "Uri_parse s st = (Uri (next_addr st) s, st\<lparr>next_addr := Suc (next_addr st)\<rparr>)"

text \<open>\<open>new TextDocument(item)\<close>: the document object and its \<open>Uri\<close> object.\<close>

definition new_TextDocument :: "TextDocumentItem \<Rightarrow> 'v server_state \<Rightarrow> TextDocument \<times> 'v server_state" where
  "new_TextDocument item st =
     (let a = next_addr st;
          (u, st1) = Uri_parse (item_uri item) (st\<lparr>next_addr := Suc a\<rparr>)
      in (\<lparr>doc_addr = a, doc_uri = u, doc_item = item\<rparr>, st1))"

text \<open>\<open>new TextEditor(document, lspClient)\<close>.\<close>

definition new_TextEditor :: "TextDocument \<Rightarrow> 'v server_state \<Rightarrow> TextEditor \<times> 'v server_state" where
  "new_TextEditor d st =
     (\<lparr>editor_addr = next_addr st, document = d\<rparr>, st\<lparr>next_addr := Suc (next_addr st)\<rparr>)"

text \<open>\<open>a === b\<close> on two \<open>Uri\<close> objects: the same object.\<close>

definition strict_eq :: "Uri \<Rightarrow> Uri \<Rightarrow> bool" where
  "strict_eq a b = (uri_addr a = uri_addr b)"

subsection \<open>The collaborators\<close>

text \<open>
  The providers (../src/go*), \<open>commands\<close>, \<open>SnippetProposalProvider\<close>, the helper
  \<open>uriToStringUri\<close> and the methods \<open>apply\<close> and \<open>save\<close> of \<open>TextDocument\<close>
  are defined outside this file: they are parameters. A provider or a command is given
  the active editor and its selection as it finds them in \<open>window\<close> when it is called,
  beside the arguments that the call passes.
\<close>

type_synonym window_view = "TextEditor option \<times> Selection option"

record 'v env =
  provideDefinition :: "window_view \<Rightarrow> TextDocument \<Rightarrow> Position \<Rightarrow> js_error + 'v option"
  provideDocumentSymbols :: "window_view \<Rightarrow> TextDocument \<Rightarrow> js_error + 'v SymbolInformation list"
  provideCompletionItems :: "window_view \<Rightarrow> TextDocument \<Rightarrow> Position \<Rightarrow> js_error + 'v list"
  proposals :: "'v list"
  provideHover :: "window_view \<Rightarrow> TextDocument \<Rightarrow> Position \<Rightarrow> js_error + 'v"
  provideRenameEdits :: "window_view \<Rightarrow> TextDocument \<Rightarrow> Position \<Rightarrow> string \<Rightarrow> js_error + 'v"
  provideReferences :: "window_view \<Rightarrow> TextDocument \<Rightarrow> Position \<Rightarrow> bool \<Rightarrow> js_error + 'v list"
  provideDocumentFormattingEdits :: "window_view \<Rightarrow> TextDocument \<Rightarrow> 'v \<Rightarrow> js_error + 'v list"
  provideSignatureHelp :: "window_view \<Rightarrow> TextDocument \<Rightarrow> Position \<Rightarrow> js_error + 'v"
  provideCodeActions :: "window_view \<Rightarrow> TextDocument \<Rightarrow> Range \<Rightarrow> 'v \<Rightarrow> js_error + 'v list"
  provideCodeLenses_reference :: "window_view \<Rightarrow> TextDocument \<Rightarrow> js_error + 'v CodeLens list"
  provideCodeLenses_test :: "window_view \<Rightarrow> TextDocument \<Rightarrow> js_error + 'v CodeLens list"
  resolveCodeLens :: "window_view \<Rightarrow> 'v CodeLens \<Rightarrow> js_error + 'v CodeLens"
  provideWorkspaceSymbols :: "window_view \<Rightarrow> string \<Rightarrow> js_error + 'v SymbolInformation list"
  commands_executeCommand :: "window_view \<Rightarrow> string \<Rightarrow> js_value list \<Rightarrow> js_error + 'v"
  document_apply :: "TextDocument \<Rightarrow> 'v list \<Rightarrow> int \<Rightarrow> js_error option"
  document_save :: "TextDocument \<Rightarrow> js_error option"
  uriToStringUri :: "Uri \<Rightarrow> string"

definition window_of :: "'v server_state \<Rightarrow> window_view" where
  "window_of st =
     (activeTextEditor st,
      case activeTextEditor st of None \<Rightarrow> None | Some ed \<Rightarrow> selection st (editor_addr ed))"

subsection \<open>The private methods\<close>

text \<open>\<open>getOpenDocument(uri)\<close>, lines 268-275.\<close>

definition getOpenDocument :: "'v server_state \<Rightarrow> string \<Rightarrow> js_error + TextDocument" where
  "getOpenDocument st uri =
     (case openedDocumentUris st uri of
        Some doc \<Rightarrow> Inr doc
      | None \<Rightarrow> Inl (Error (''Document '' @ uri @ '' has not been opened.'')))"

text \<open>
  \<open>activateEditor(document, selection?)\<close>, lines 277-282. \<open>Array.find\<close> gives the
  first editor that satisfies the test, or undefined; the assignment to
  \<open>window.activeTextEditor\<close> is done before the selection is looked at, so it stays when
  the assignment of the selection throws on an undefined editor.
\<close>

definition activateEditor ::
  "'v server_state \<Rightarrow> TextDocument \<Rightarrow> js_value \<Rightarrow> (js_error + TextDocument) \<times> 'v server_state" where
  "activateEditor st doc sel =
     (let st1 = st\<lparr>activeTextEditor :=
                     find (\<lambda>editor. strict_eq (doc_uri (document editor)) (doc_uri doc))
                       (visibleTextEditors st)\<rparr>
      in if truthy sel then
           (case activeTextEditor st1 of
              None \<Rightarrow> (Inl (TypeError ''Cannot set property selection of undefined''), st1)
            | Some ed \<Rightarrow>
                (Inr doc,
                 st1\<lparr>selection := (selection st1)
                        (editor_addr ed \<mapsto> Selection (prop_start sel) (prop_end sel))\<rparr>))
         else (Inr doc, st1))"

text \<open>
  \<open>executeOnDocument(serviceName, params, lambda)\<close>, lines 254-266. The method is not
  \<open>async\<close>: a failed lookup is a throw, before any promise exists. \<open>lambda\<close> is an
  \<open>async\<close> function; here it maps the window it finds and the document to the effects
  it has and to its result or failure. A failure is reported to the client and replaced
  by the response error.
\<close>

definition executeOnDocument ::
  "'v server_state \<Rightarrow> string \<Rightarrow> string \<Rightarrow>
   (window_view \<Rightarrow> TextDocument \<Rightarrow> 'v effect list \<times> (js_error + 'a)) \<Rightarrow>
   (js_error + 'a promise) \<times> 'v server_state" where
  "executeOnDocument st serviceName uri lambda =
     (case getOpenDocument st uri of
        Inl e \<Rightarrow> (Inl e, st)
      | Inr doc \<Rightarrow>
          (case activateEditor st doc Undefined of
             (Inl e, st1) \<Rightarrow> (Inl e, st1)
           | (Inr doc1, st1) \<Rightarrow>
               (case lambda (window_of st1) doc1 of
                  (es, Inr r) \<Rightarrow> (Inr (Resolved r), emit es st1)
                | (es, Inl err) \<Rightarrow>
                    (Inr (Rejected (ResponseError InvalidRequest err err)),
                     emit [ShowMessage err MessageType_Error] (emit es st1)))))"

text \<open>A provider call has no effect of its own on the state.\<close>

definition pure :: "js_error + 'a \<Rightarrow> 'v effect list \<times> (js_error + 'a)" where
  "pure r = ([], r)"

fun map_result :: "('a \<Rightarrow> 'b) \<Rightarrow> js_error + 'a \<Rightarrow> js_error + 'b" where
  "map_result f (Inl e) = Inl e"
| "map_result f (Inr x) = Inr (f x)"

subsection \<open>Initialization\<close>

datatype TextDocumentSyncKind = SyncKind_None | SyncKind_Full | SyncKind_Incremental

record ServerCapabilities =
  textDocumentSync :: TextDocumentSyncKind
  completionProvider :: "string list \<times> bool"
  codeActionProvider :: bool
  codeLensProvider :: bool
  definitionProvider :: bool
  documentFormattingProvider :: bool
  documentHighlightProvider :: bool
  documentSymbolProvider :: bool
  executeCommandProvider :: "string list"
  hoverProvider :: bool
  renameProvider :: bool
  referencesProvider :: bool
  signatureHelpProvider :: "string list"
  workspaceSymbolProvider :: bool

definition WORKSPACE_EDIT_COMMAND :: string where
  "WORKSPACE_EDIT_COMMAND = ''workspace-edit''"

definition initializeResult :: ServerCapabilities where
  "initializeResult =
     \<lparr> textDocumentSync = SyncKind_Incremental,
       completionProvider = ([''.''], False),
       codeActionProvider = True,
       codeLensProvider = True,
       definitionProvider = True,
       documentFormattingProvider = True,
       documentHighlightProvider = True,
       documentSymbolProvider = True,
       executeCommandProvider = [WORKSPACE_EDIT_COMMAND],
       hoverProvider = True,
       renameProvider = True,
       referencesProvider = True,
       signatureHelpProvider = [''('', '',''],
       workspaceSymbolProvider = True \<rparr>"

text \<open>\<open>initialize(params)\<close>, lines 74-108.\<close>

definition initialize ::
  "'v server_state \<Rightarrow> InitializeParams \<Rightarrow> ServerCapabilities promise \<times> 'v server_state" where
  "initialize st params =
     (let (folder, st1) = Uri_parse (rootUri params) (st\<lparr>initializeParams := Some params\<rparr>)
      in (Resolved initializeResult, st1\<lparr>workspaceFolders := workspaceFolders st1 @ [folder]\<rparr>))"

subsection \<open>Document lifecycle\<close>

text \<open>
  \<open>didOpenTextDocument(params)\<close>, lines 110-123. The local \<open>hadBuild\<close> is read from
  the flag and then not used: the call of \<open>buildCode\<close> is not under any condition.
\<close>

definition didOpenTextDocument :: "'v server_state \<Rightarrow> TextDocumentItem \<Rightarrow> 'v server_state" where
  "didOpenTextDocument st textDocument =
     (let (doc, st1) = new_TextDocument textDocument st;
          st2 = st1\<lparr>openedDocumentUris := (openedDocumentUris st1)(item_uri textDocument \<mapsto> doc)\<rparr>;
          (editor, st3) = new_TextEditor doc st2;
          st4 = st3\<lparr>visibleTextEditors := visibleTextEditors st3 @ [editor]\<rparr>;
          st5 = st4\<lparr>activeTextEditor := Some editor\<rparr>;
          hadBuild = hasStartedInitialBuild st5;
          st6 = st5\<lparr>hasStartedInitialBuild := True\<rparr>
      in emit [BuildCode False] st6)"

text \<open>
  The loop of lines 130-134: the index of the first editor that passes the test, the
  length of the list when none does.
\<close>

fun first_index :: "('a \<Rightarrow> bool) \<Rightarrow> 'a list \<Rightarrow> nat" where
  "first_index P [] = 0"
| "first_index P (x # xs) = (if P x then 0 else Suc (first_index P xs))"

text \<open>
  \<open>array.splice(i)\<close> with a start and no delete count removes every element from index
  \<open>i\<close> to the end of the array.
\<close>

definition splice_from :: "nat \<Rightarrow> 'a list \<Rightarrow> 'a list" where
  "splice_from i xs = take i xs"

text \<open>
  \<open>didCloseTextDocument(params)\<close>, lines 125-137. The loop tests
  \<open>window.visibleTextEditors[i].document.uri === uri\<close>, where \<open>uri\<close> is the object
  that \<open>Uri.parse\<close> has just built: \<open>===\<close> on objects holds for one and the same
  object only, whatever the two URIs read.
\<close>

definition didCloseTextDocument :: "'v server_state \<Rightarrow> string \<Rightarrow> 'v server_state" where
  "didCloseTextDocument st textDocument_uri =
     (let st1 = st\<lparr>openedDocumentUris := (openedDocumentUris st)(textDocument_uri := None)\<rparr>;
          (uri, st2) = Uri_parse textDocument_uri st1;
          i = first_index (\<lambda>editor. strict_eq (doc_uri (document editor)) uri) (visibleTextEditors st2)
      in if i < length (visibleTextEditors st2)
         then st2\<lparr>visibleTextEditors := splice_from i (visibleTextEditors st2)\<rparr>
         else st2)"

text \<open>
  \<open>didChangeTextDocument(params)\<close>, lines 139-143. The method returns nothing: the
  promise is dropped, a throw of the lookup reaches the caller.
\<close>

definition didChangeTextDocument ::
  "'v env \<Rightarrow> 'v server_state \<Rightarrow> string \<Rightarrow> 'v list \<Rightarrow> int \<Rightarrow> (js_error + unit) \<times> 'v server_state" where
  "didChangeTextDocument env st uri contentChanges version =
     (case executeOnDocument st ''onDidCloseTextDocument'' uri
             (\<lambda>w doc. case document_apply env doc contentChanges version of
                         None \<Rightarrow> ([DocumentApply doc contentChanges version], Inr ())
                       | Some err \<Rightarrow> ([], Inl err)) of
        (Inl e, st1) \<Rightarrow> (Inl e, st1)
      | (Inr p, st1) \<Rightarrow> (Inr (), st1))"

text \<open>
  \<open>didSaveTextDocument(params)\<close>, lines 145-149. The callback of \<open>then\<close> runs when
  the promise of \<open>executeOnDocument\<close> resolves and is skipped when it rejects.
\<close>

definition didSaveTextDocument ::
  "'v env \<Rightarrow> 'v server_state \<Rightarrow> string \<Rightarrow> (js_error + unit) \<times> 'v server_state" where
  "didSaveTextDocument env st uri =
     (case executeOnDocument st ''onDidSaveTextDocument'' uri
             (\<lambda>w doc. case document_save env doc of
                         None \<Rightarrow> ([DocumentSave doc], Inr ())
                       | Some err \<Rightarrow> ([], Inl err)) of
        (Inl e, st1) \<Rightarrow> (Inl e, st1)
      | (Inr (Resolved u), st1) \<Rightarrow> (Inr (), emit [BuildCode False] st1)
      | (Inr (Rejected e), st1) \<Rightarrow> (Inr (), st1))"

subsection \<open>Requests on a document\<close>

text \<open>\<open>definition(params)\<close>, lines 151-159.\<close>

definition definition_req ::
  "'v env \<Rightarrow> 'v server_state \<Rightarrow> string \<Rightarrow> Position \<Rightarrow> 'v Definition promise \<times> 'v server_state" where
  "definition_req env st uri position =
     (case executeOnDocument st ''definition'' uri
             (\<lambda>w doc. pure (map_result
                (\<lambda>d. case d of Some x \<Rightarrow> DefinitionOf x | None \<Rightarrow> DefinitionList [])
                (provideDefinition env w doc position))) of
        (r, st1) \<Rightarrow> (async r, st1))"

text \<open>\<open>documentSymbol(params)\<close>, lines 161-169.\<close>

definition documentSymbol ::
  "'v env \<Rightarrow> 'v server_state \<Rightarrow> string \<Rightarrow> 'v SymbolInformation list promise \<times> 'v server_state" where
  "documentSymbol env st uri =
     (case executeOnDocument st ''symbol'' uri
             (\<lambda>w doc. pure (map_result
                (map (\<lambda>symbol. symbol\<lparr>symbol_location :=
                        Some (Location (symbol_range symbol) (uriToStringUri env (doc_uri doc)))\<rparr>))
                (provideDocumentSymbols env w doc))) of
        (r, st1) \<Rightarrow> (async r, st1))"

text \<open>\<open>completion(params)\<close>, lines 171-179.\<close>

definition completion ::
  "'v env \<Rightarrow> 'v server_state \<Rightarrow> string \<Rightarrow> Position \<Rightarrow> 'v CompletionList promise \<times> 'v server_state" where
  "completion env st uri position =
     (case executeOnDocument st ''completion'' uri
             (\<lambda>w doc. pure (map_result
                (\<lambda>its. \<lparr>isIncomplete = False, items = its @ proposals env\<rparr>)
                (provideCompletionItems env w doc position))) of
        (r, st1) \<Rightarrow> (async r, st1))"

text \<open>\<open>hover(params)\<close>, lines 181-185.\<close>

definition hover ::
  "'v env \<Rightarrow> 'v server_state \<Rightarrow> string \<Rightarrow> Position \<Rightarrow> 'v promise \<times> 'v server_state" where
  "hover env st uri position =
     (case executeOnDocument st ''hover'' uri
             (\<lambda>w doc. pure (provideHover env w doc position)) of
        (r, st1) \<Rightarrow> (async r, st1))"

text \<open>\<open>rename(params)\<close>, lines 187-191.\<close>

definition rename_req ::
  "'v env \<Rightarrow> 'v server_state \<Rightarrow> string \<Rightarrow> Position \<Rightarrow> string \<Rightarrow> 'v promise \<times> 'v server_state" where
  "rename_req env st uri position newName =
     (case executeOnDocument st ''onRename'' uri
             (\<lambda>w doc. pure (provideRenameEdits env w doc position newName)) of
        (r, st1) \<Rightarrow> (async r, st1))"

text \<open>\<open>references(params)\<close>, lines 193-197.\<close>

definition references ::
  "'v env \<Rightarrow> 'v server_state \<Rightarrow> string \<Rightarrow> Position \<Rightarrow> 'v list promise \<times> 'v server_state" where
  "references env st uri position =
     (case executeOnDocument st ''onReferences'' uri
             (\<lambda>w doc. pure (provideReferences env w doc position True)) of
        (r, st1) \<Rightarrow> (async r, st1))"

text \<open>\<open>documentFormatting(params)\<close>, lines 199-203.\<close>

definition documentFormatting ::
  "'v env \<Rightarrow> 'v server_state \<Rightarrow> string \<Rightarrow> 'v \<Rightarrow> 'v list promise \<times> 'v server_state" where
  "documentFormatting env st uri options =
     (case executeOnDocument st ''format'' uri
             (\<lambda>w doc. pure (provideDocumentFormattingEdits env w doc options)) of
        (r, st1) \<Rightarrow> (async r, st1))"

text \<open>\<open>signatureHelp(params)\<close>, lines 205-209.\<close>

definition signatureHelp ::
  "'v env \<Rightarrow> 'v server_state \<Rightarrow> string \<Rightarrow> Position \<Rightarrow> 'v promise \<times> 'v server_state" where
  "signatureHelp env st uri position =
     (case executeOnDocument st ''signatureHelp'' uri
             (\<lambda>w doc. pure (provideSignatureHelp env w doc position)) of
        (r, st1) \<Rightarrow> (async r, st1))"

text \<open>\<open>codeAction(params)\<close>, lines 211-215.\<close>

definition codeAction ::
  "'v env \<Rightarrow> 'v server_state \<Rightarrow> string \<Rightarrow> Range \<Rightarrow> 'v \<Rightarrow> 'v list promise \<times> 'v server_state" where
  "codeAction env st uri rng context =
     (case executeOnDocument st ''codeAction'' uri
             (\<lambda>w doc. pure (provideCodeActions env w doc rng context)) of
        (r, st1) \<Rightarrow> (async r, st1))"

text \<open>
  \<open>codeLens(params)\<close>, lines 217-223. The two providers are awaited one after the
  other: the second is not asked when the first fails.
\<close>

definition codeLens ::
  "'v env \<Rightarrow> 'v server_state \<Rightarrow> string \<Rightarrow> 'v CodeLens list promise \<times> 'v server_state" where
  "codeLens env st uri =
     (case executeOnDocument st ''codeLens'' uri
             (\<lambda>w doc. pure
                (case provideCodeLenses_reference env w doc of
                   Inl e \<Rightarrow> Inl e
                 | Inr referenceCodeLenses \<Rightarrow>
                     (case provideCodeLenses_test env w doc of
                        Inl e \<Rightarrow> Inl e
                      | Inr testCodeLenses \<Rightarrow> Inr (referenceCodeLenses @ testCodeLenses)))) of
        (r, st1) \<Rightarrow> (async r, st1))"

subsection \<open>Requests outside \<open>executeOnDocument\<close>\<close>

text \<open>
  \<open>codeLensResolve(codeLens)\<close>, lines 225-228. Reading \<open>document\<close> from an undefined
  active editor throws; the method is \<open>async\<close>.
\<close>

definition codeLensResolve ::
  "'v env \<Rightarrow> 'v server_state \<Rightarrow> 'v CodeLens \<Rightarrow> 'v CodeLens promise \<times> 'v server_state" where
  "codeLensResolve env st lens =
     (case activeTextEditor st of
        None \<Rightarrow> (Rejected (TypeError ''Cannot read property document of undefined''), st)
      | Some ed \<Rightarrow>
          (settle (resolveCodeLens env (window_of st) (lens\<lparr>lens_document := Some (document ed)\<rparr>)),
           st))"

text \<open>\<open>args[i]\<close>: undefined outside the array.\<close>

definition arg_at :: "js_value list \<Rightarrow> int \<Rightarrow> js_value" where
  "arg_at args i = (if 0 \<le> i \<and> i < int (length args) then args ! nat i else Undefined)"

text \<open>\<open>args.slice(0, -2)\<close>: all but the last two elements, the empty array when there are fewer.\<close>

definition slice_0_minus2 :: "'a list \<Rightarrow> 'a list" where
  "slice_0_minus2 args = take (length args - 2) args"

text \<open>
  \<open>executeCommand(params)\<close>, lines 230-237. \<open>params.arguments\<close> is optional. The
  cast of the key to a string is not checked: a key that is no string is not in the map,
  and the message is built from its string form.
\<close>

definition executeCommand ::
  "'v env \<Rightarrow> 'v server_state \<Rightarrow> string \<Rightarrow> js_value list option \<Rightarrow> 'v promise \<times> 'v server_state" where
  "executeCommand env st command arguments =
     (case arguments of
        None \<Rightarrow> (Rejected (TypeError ''Cannot read property length of undefined''), st)
      | Some args \<Rightarrow>
          (case (case arg_at args (int (length args) - 2) of
                   Str uri \<Rightarrow> getOpenDocument st uri
                 | v \<Rightarrow> Inl (Error (''Document '' @ to_string v @ '' has not been opened.''))) of
             Inl e \<Rightarrow> (Rejected e, st)
           | Inr doc \<Rightarrow>
               (case activateEditor st doc (arg_at args (int (length args) - 1)) of
                  (Inl e, st1) \<Rightarrow> (Rejected e, st1)
                | (Inr doc1, st1) \<Rightarrow>
                    (settle (commands_executeCommand env (window_of st1) command (slice_0_minus2 args)),
                     emit [CommandExecuted command (slice_0_minus2 args)] st1))))"

text \<open>\<open>documentHighlight(arg)\<close>, lines 239-243.\<close>

definition documentHighlight ::
  "'v server_state \<Rightarrow> string \<Rightarrow> Position \<Rightarrow> 'v list promise \<times> 'v server_state" where
  "documentHighlight st uri position = (Resolved [], st)"

text \<open>\<open>workspaceSymbol(params)\<close>, lines 249-252.\<close>

definition workspaceSymbol ::
  "'v env \<Rightarrow> 'v server_state \<Rightarrow> string \<Rightarrow> 'v SymbolInformation list promise \<times> 'v server_state" where
  "workspaceSymbol env st query = (settle (provideWorkspaceSymbols env (window_of st) query), st)"

subsection \<open>The public operations as one step function\<close>

text \<open>
  One constructor for each public method of \<open>LspServer\<close>, with the parts of its
  parameter that the method reads.
\<close>

datatype 'v request =
    Initialize InitializeParams
  | DidOpen TextDocumentItem
  | DidClose string
  | DidChange string "'v list" int
  | DidSave string
  | DefinitionRequest string Position
  | DocumentSymbol string
  | Completion string Position
  | Hover string Position
  | Rename string Position string
  | References string Position
  | DocumentFormatting string 'v
  | SignatureHelp string Position
  | CodeAction string Range 'v
  | CodeLensRequest string
  | CodeLensResolve "'v CodeLens"
  | ExecuteCommand string "js_value list option"
  | DocumentHighlight string Position
  | WorkspaceSymbol string

datatype 'v response =
    Nothing
  | Capabilities ServerCapabilities
  | DefinitionResult "'v Definition"
  | Symbols "'v SymbolInformation list"
  | CompletionResult "'v CompletionList"
  | Single 'v
  | Several "'v list"
  | Lenses "'v CodeLens list"
  | Lens "'v CodeLens"

fun map_promise :: "('a \<Rightarrow> 'b) \<Rightarrow> 'a promise \<Rightarrow> 'b promise" where
  "map_promise f (Resolved x) = Resolved (f x)"
| "map_promise f (Rejected e) = Rejected e"

text \<open>
  What the caller of a method gets: a throw (\<open>Inl\<close>), or a promise. The two
  notifications that go through \<open>executeOnDocument\<close> return nothing and drop the
  promise.
\<close>

type_synonym 'v outcome = "js_error + 'v response promise"

definition returned :: "('a \<Rightarrow> 'v response) \<Rightarrow> 'a promise \<times> 'v server_state \<Rightarrow> 'v outcome \<times> 'v server_state" where
  "returned f r = (Inr (map_promise f (fst r)), snd r)"

definition void :: "(js_error + unit) \<times> 'v server_state \<Rightarrow> 'v outcome \<times> 'v server_state" where
  "void r = (map_result (\<lambda>u. Resolved Nothing) (fst r), snd r)"

fun dispatch :: "'v env \<Rightarrow> 'v server_state \<Rightarrow> 'v request \<Rightarrow> 'v outcome \<times> 'v server_state" where
  "dispatch env st (Initialize params) = returned Capabilities (initialize st params)"
| "dispatch env st (DidOpen textDocument) = (Inr (Resolved Nothing), didOpenTextDocument st textDocument)"
| "dispatch env st (DidClose uri) = (Inr (Resolved Nothing), didCloseTextDocument st uri)"
| "dispatch env st (DidChange uri contentChanges version) =
     void (didChangeTextDocument env st uri contentChanges version)"
| "dispatch env st (DidSave uri) = void (didSaveTextDocument env st uri)"
| "dispatch env st (DefinitionRequest uri position) =
     returned DefinitionResult (definition_req env st uri position)"
| "dispatch env st (DocumentSymbol uri) = returned Symbols (documentSymbol env st uri)"
| "dispatch env st (Completion uri position) = returned CompletionResult (completion env st uri position)"
| "dispatch env st (Hover uri position) = returned Single (hover env st uri position)"
| "dispatch env st (Rename uri position newName) = returned Single (rename_req env st uri position newName)"
| "dispatch env st (References uri position) = returned Several (references env st uri position)"
| "dispatch env st (DocumentFormatting uri options) =
     returned Several (documentFormatting env st uri options)"
| "dispatch env st (SignatureHelp uri position) = returned Single (signatureHelp env st uri position)"
| "dispatch env st (CodeAction uri rng context) = returned Several (codeAction env st uri rng context)"
| "dispatch env st (CodeLensRequest uri) = returned Lenses (codeLens env st uri)"
| "dispatch env st (CodeLensResolve lens) = returned Lens (codeLensResolve env st lens)"
| "dispatch env st (ExecuteCommand command arguments) =
     returned Single (executeCommand env st command arguments)"
| "dispatch env st (DocumentHighlight uri position) = returned Several (documentHighlight st uri position)"
| "dispatch env st (WorkspaceSymbol query) = returned Symbols (workspaceSymbol env st query)"

text \<open>
  A run of the server: the operations are applied in the order of arrival, each with the
  behaviour that the collaborators show during it.
\<close>

fun run :: "('v env \<times> 'v request) list \<Rightarrow> 'v server_state \<Rightarrow> 'v server_state" where
  "run [] st = st"
| "run (x # xs) st = run xs (snd (dispatch (fst x) st (snd x)))"

text \<open>The failure that the caller of a method sees, thrown or as a rejected promise.\<close>

fun failure :: "js_error + 'a promise \<Rightarrow> js_error option" where
  "failure (Inl e) = Some e"
| "failure (Inr (Rejected e)) = Some e"
| "failure (Inr (Resolved x)) = None"

text \<open>The URI of the document that a document-based operation names.\<close>

fun document_uri :: "'v request \<Rightarrow> string option" where
  "document_uri (DidChange uri contentChanges version) = Some uri"
| "document_uri (DidSave uri) = Some uri"
| "document_uri (DefinitionRequest uri position) = Some uri"
| "document_uri (DocumentSymbol uri) = Some uri"
| "document_uri (Completion uri position) = Some uri"
| "document_uri (Hover uri position) = Some uri"
| "document_uri (Rename uri position newName) = Some uri"
| "document_uri (References uri position) = Some uri"
| "document_uri (DocumentFormatting uri options) = Some uri"
| "document_uri (SignatureHelp uri position) = Some uri"
| "document_uri (CodeAction uri rng context) = Some uri"
| "document_uri (CodeLensRequest uri) = Some uri"
| "document_uri (ExecuteCommand command (Some args)) =
     (case arg_at args (int (length args) - 2) of Str uri \<Rightarrow> Some uri | v \<Rightarrow> None)"
| "document_uri r = None"

fun is_DidOpen :: "'v request \<Rightarrow> bool" where
  "is_DidOpen (DidOpen textDocument) = True"
| "is_DidOpen r = False"

text \<open>The number of calls of \<open>buildCode\<close> among the effects.\<close>

definition build_calls :: "'v effect list \<Rightarrow> nat" where
  "build_calls es = length (filter (\<lambda>e. case e of BuildCode b \<Rightarrow> True | _ \<Rightarrow> False) es)"

subsection \<open>Notions used in the statements\<close>

text \<open>The error of a failed lookup, by the name that the specification gives it.\<close>

definition DocumentNotOpen :: "string \<Rightarrow> js_error" where
  "DocumentNotOpen uri = Error (''Document '' @ uri @ '' has not been opened.'')"

fun error_of :: "js_error + 'a \<Rightarrow> js_error option" where
  "error_of (Inl e) = Some e"
| "error_of (Inr x) = None"

text \<open>
  The failure of the provider call that a request delegates to, if it fails, for the ten
  requests that go through \<open>executeOnDocument\<close>. \<open>w\<close> is the window and \<open>doc\<close> the
  document that the provider is called with.
\<close>

fun provider_failure :: "'v env \<Rightarrow> window_view \<Rightarrow> TextDocument \<Rightarrow> 'v request \<Rightarrow> js_error option" where
  "provider_failure env w doc (DefinitionRequest uri position) =
     error_of (provideDefinition env w doc position)"
| "provider_failure env w doc (DocumentSymbol uri) = error_of (provideDocumentSymbols env w doc)"
| "provider_failure env w doc (Completion uri position) =
     error_of (provideCompletionItems env w doc position)"
| "provider_failure env w doc (Hover uri position) = error_of (provideHover env w doc position)"
| "provider_failure env w doc (Rename uri position newName) =
     error_of (provideRenameEdits env w doc position newName)"
| "provider_failure env w doc (References uri position) =
     error_of (provideReferences env w doc position True)"
| "provider_failure env w doc (DocumentFormatting uri options) =
     error_of (provideDocumentFormattingEdits env w doc options)"
| "provider_failure env w doc (SignatureHelp uri position) =
     error_of (provideSignatureHelp env w doc position)"
| "provider_failure env w doc (CodeAction uri rng context) =
     error_of (provideCodeActions env w doc rng context)"
| "provider_failure env w doc (CodeLensRequest uri) =
     (case error_of (provideCodeLenses_reference env w doc) of
        Some e \<Rightarrow> Some e
      | None \<Rightarrow> error_of (provideCodeLenses_test env w doc))"
| "provider_failure env w doc r = None"

text \<open>The state in which the lambda of \<open>executeOnDocument\<close> runs.\<close>

definition activated :: "'v server_state \<Rightarrow> TextDocument \<Rightarrow> 'v server_state" where
  "activated st doc = snd (activateEditor st doc Undefined)"

text \<open>
  What an operation other than didOpen and didClose may do to the session: the map of
  documents, the visible editors and the build flag stay, addresses are only handed out,
  and the active editor stays or becomes the editor found for an open document.
\<close>

definition kept :: "'v server_state \<Rightarrow> 'v server_state \<Rightarrow> bool" where
  "kept st st' =
     (openedDocumentUris st' = openedDocumentUris st \<and>
      visibleTextEditors st' = visibleTextEditors st \<and>
      next_addr st \<le> next_addr st' \<and>
      hasStartedInitialBuild st' = hasStartedInitialBuild st \<and>
      (activeTextEditor st' = activeTextEditor st \<or>
       (\<exists>uri doc. openedDocumentUris st uri = Some doc \<and>
          activeTextEditor st' =
            find (\<lambda>editor. strict_eq (doc_uri (document editor)) (doc_uri doc)) (visibleTextEditors st))))"

text \<open>
  The invariant of the session: every open document has its editor among the visible
  ones; the \<open>Uri\<close> objects of the visible editors' documents are older than the next
  address and belong to one document each; an editor is active exactly when a document has
  been opened; no document is open before that.
\<close>

definition session_inv :: "'v server_state \<Rightarrow> bool" where
  "session_inv st =
     ((\<forall>uri doc. openedDocumentUris st uri = Some doc \<longrightarrow>
         (\<exists>ed \<in> set (visibleTextEditors st). document ed = doc)) \<and>
      (\<forall>ed \<in> set (visibleTextEditors st). uri_addr (doc_uri (document ed)) < next_addr st) \<and>
      (\<forall>e1 \<in> set (visibleTextEditors st). \<forall>e2 \<in> set (visibleTextEditors st).
         uri_addr (doc_uri (document e1)) = uri_addr (doc_uri (document e2)) \<longrightarrow>
         document e1 = document e2) \<and>
      (hasStartedInitialBuild st = (activeTextEditor st \<noteq> None)) \<and>
      (\<not> hasStartedInitialBuild st \<longrightarrow> openedDocumentUris st = Map.empty))"

subsection \<open>Concrete inputs\<close>

definition itemA :: TextDocumentItem where
  "itemA = \<lparr>item_uri = ''file:///a.go'', item_languageId = ''go'', item_version = 1,
             item_text = ''package a''\<rparr>"

definition itemB :: TextDocumentItem where
  "itemB = \<lparr>item_uri = ''file:///b.go'', item_languageId = ''go'', item_version = 1,
             item_text = ''package b''\<rparr>"

text \<open>Collaborators of which the hover provider fails and all others succeed.\<close>

definition env0 :: "nat env" where
  "env0 =
     \<lparr> provideDefinition = (\<lambda>w doc position. Inr None),
       provideDocumentSymbols = (\<lambda>w doc. Inr []),
       provideCompletionItems = (\<lambda>w doc position. Inr [1, 2]),
       proposals = [7, 8],
       provideHover = (\<lambda>w doc position. Inl (Error ''no hover'')),
       provideRenameEdits = (\<lambda>w doc position newName. Inr 0),
       provideReferences = (\<lambda>w doc position includeDeclaration. Inr []),
       provideDocumentFormattingEdits = (\<lambda>w doc options. Inr []),
       provideSignatureHelp = (\<lambda>w doc position. Inr 0),
       provideCodeActions = (\<lambda>w doc rng context. Inr []),
       provideCodeLenses_reference = (\<lambda>w doc. Inr []),
       provideCodeLenses_test = (\<lambda>w doc. Inr []),
       resolveCodeLens = (\<lambda>w lens. Inr lens),
       provideWorkspaceSymbols = (\<lambda>w query. Inr []),
       commands_executeCommand = (\<lambda>w command args. Inr (length args)),
       document_apply = (\<lambda>doc contentChanges version. None),
       document_save = (\<lambda>doc. None),
       uriToStringUri = uri_value \<rparr>"

text \<open>The state after \<open>itemA\<close> has been opened on a fresh server.\<close>

definition stateA :: "nat server_state" where
  "stateA = didOpenTextDocument server_start itemA"

text \<open>The objects that opening \<open>itemA\<close> and then \<open>itemB\<close> creates.\<close>

definition docA :: TextDocument where
  "docA = \<lparr>doc_addr = 0, doc_uri = Uri 1 ''file:///a.go'', doc_item = itemA\<rparr>"

definition editorA :: TextEditor where
  "editorA = \<lparr>editor_addr = 2, document = docA\<rparr>"

definition docB :: TextDocument where
  "docB = \<lparr>doc_addr = 3, doc_uri = Uri 4 ''file:///b.go'', doc_item = itemB\<rparr>"

definition editorB :: TextEditor where
  "editorB = \<lparr>editor_addr = 5, document = docB\<rparr>"

text \<open>The state after \<open>itemA\<close> and then \<open>itemB\<close> have been opened.\<close>

definition stateAB :: "nat server_state" where
  "stateAB = didOpenTextDocument stateA itemB"

text \<open>Collaborators as \<open>env0\<close>, but saving a document fails.\<close>

definition env1 :: "nat env" where
  "env1 = env0\<lparr>document_save := (\<lambda>doc. Some (Error ''disk full''))\<rparr>"

definition range0 :: Range where
  "range0 = \<lparr>range_start = (1, 0), range_end = (1, 7)\<rparr>"

section \<open>Properties\<close>

subsection \<open>Activation and \<open>executeOnDocument\<close>\<close>

lemma activateEditor_Undefined:
  "activateEditor st doc Undefined =
     (Inr doc, st\<lparr>activeTextEditor :=
        find (\<lambda>editor. strict_eq (doc_uri (document editor)) (doc_uri doc)) (visibleTextEditors st)\<rparr>)"
  by (simp add: activateEditor_def)

lemma activateEditor_fields:
  "openedDocumentUris (snd (activateEditor st doc sel)) = openedDocumentUris st"
  "visibleTextEditors (snd (activateEditor st doc sel)) = visibleTextEditors st"
  "next_addr (snd (activateEditor st doc sel)) = next_addr st"
  "hasStartedInitialBuild (snd (activateEditor st doc sel)) = hasStartedInitialBuild st"
  "effects (snd (activateEditor st doc sel)) = effects st"
  "activeTextEditor (snd (activateEditor st doc sel)) =
     find (\<lambda>editor. strict_eq (doc_uri (document editor)) (doc_uri doc)) (visibleTextEditors st)"
  by (simp_all add: activateEditor_def Let_def split: option.splits)

lemma activated_fields:
  "openedDocumentUris (activated st doc) = openedDocumentUris st"
  "visibleTextEditors (activated st doc) = visibleTextEditors st"
  "next_addr (activated st doc) = next_addr st"
  "hasStartedInitialBuild (activated st doc) = hasStartedInitialBuild st"
  "effects (activated st doc) = effects st"
  "selection (activated st doc) = selection st"
  "activeTextEditor (activated st doc) =
     find (\<lambda>editor. strict_eq (doc_uri (document editor)) (doc_uri doc)) (visibleTextEditors st)"
  by (simp_all add: activated_def activateEditor_Undefined)

lemma executeOnDocument_closed:
  "openedDocumentUris st uri = None \<Longrightarrow>
   executeOnDocument st name uri lam = (Inl (DocumentNotOpen uri), st)"
  by (simp add: executeOnDocument_def getOpenDocument_def DocumentNotOpen_def)

lemma executeOnDocument_open:
  "openedDocumentUris st uri = Some doc \<Longrightarrow>
   executeOnDocument st name uri lam =
     (case lam (window_of (activated st doc)) doc of
        (es, Inr r) \<Rightarrow> (Inr (Resolved r), emit es (activated st doc))
      | (es, Inl err) \<Rightarrow>
          (Inr (Rejected (ResponseError InvalidRequest err err)),
           emit [ShowMessage err MessageType_Error] (emit es (activated st doc))))"
  unfolding activated_def
  by (simp add: executeOnDocument_def getOpenDocument_def activateEditor_Undefined
        split: prod.splits sum.splits)

lemma executeOnDocument_pure_open:
  "openedDocumentUris st uri = Some doc \<Longrightarrow>
   executeOnDocument st name uri (\<lambda>w d. pure (f w d)) =
     (case f (window_of (activated st doc)) doc of
        Inr r \<Rightarrow> (Inr (Resolved r), activated st doc)
      | Inl err \<Rightarrow>
          (Inr (Rejected (ResponseError InvalidRequest err err)),
           emit [ShowMessage err MessageType_Error] (activated st doc)))"
  by (simp add: executeOnDocument_open pure_def emit_def split: sum.splits)

lemmas handler_defs =
  definition_req_def documentSymbol_def completion_def hover_def rename_req_def references_def
  documentFormatting_def signatureHelp_def codeAction_def codeLens_def

lemma error_of_Some [simp]: "(error_of r = Some e) = (r = Inl e)"
  by (cases r) auto

lemma error_of_None [simp]: "(error_of r = None) = (\<exists>x. r = Inr x)"
  by (cases r) auto

lemma document_uri_ExecuteCommand:
  "document_uri (ExecuteCommand command arguments) = Some uri \<Longrightarrow>
   \<exists>args. arguments = Some args \<and> arg_at args (int (length args) - 2) = Str uri"
  by (cases arguments) (auto split: js_value.splits)

lemma snd_case_prod_keep: "snd (case p of (r, s) \<Rightarrow> (f r, s)) = snd p"
  by (cases p) simp

subsection \<open>The concrete states\<close>

lemma stateA_eq:
  "stateA = \<lparr> initializeParams = None, workspaceFolders = [],
       openedDocumentUris = [''file:///a.go'' \<mapsto> docA],
       visibleTextEditors = [editorA],
       activeTextEditor = Some editorA,
       selection = Map.empty,
       hasStartedInitialBuild = True,
       next_addr = 3,
       effects = [BuildCode False] \<rparr>"
  by (simp add: stateA_def didOpenTextDocument_def new_TextDocument_def new_TextEditor_def
        Uri_parse_def server_start_def emit_def docA_def editorA_def itemA_def numeral_3_eq_3)

lemma stateAB_eq:
  "stateAB = \<lparr> initializeParams = None, workspaceFolders = [],
       openedDocumentUris = [''file:///a.go'' \<mapsto> docA, ''file:///b.go'' \<mapsto> docB],
       visibleTextEditors = [editorA, editorB],
       activeTextEditor = Some editorB,
       selection = Map.empty,
       hasStartedInitialBuild = True,
       next_addr = 6,
       effects = [BuildCode False, BuildCode False] \<rparr>"
  by (simp add: stateAB_def stateA_eq didOpenTextDocument_def new_TextDocument_def
        new_TextEditor_def Uri_parse_def emit_def docB_def editorB_def itemB_def)

lemma activated_stateA: "activated stateA docA = stateA"
  by (simp add: activated_def activateEditor_Undefined stateA_eq strict_eq_def editorA_def)

subsection \<open>Failure of a provider\<close>

text \<open>
  C4. A request on an open document whose provider call fails with \<open>err\<close> sends the
  client one \<open>showMessage\<close> of type error with \<open>err\<close> as its message and nothing
  else, and its promise is rejected with one \<open>ResponseError\<close> of code
  \<open>InvalidRequest\<close> that carries the same \<open>err\<close>.
\<close>

theorem provider_failure_reported_once:
  assumes "openedDocumentUris st uri = Some doc"
      and "document_uri req = Some uri"
      and "provider_failure env (window_of (activated st doc)) doc req = Some err"
  shows "fst (dispatch env st req) = Inr (Rejected (ResponseError InvalidRequest err err)) \<and>
         effects (snd (dispatch env st req)) = effects st @ [ShowMessage err MessageType_Error]"
  using assms
  by (cases req)
     (auto simp: returned_def handler_defs executeOnDocument_pure_open emit_def activated_fields
           split: sum.splits option.splits)

theorem provider_failure_reported_once_witness:
  "openedDocumentUris stateA ''file:///a.go'' = Some docA \<and>
   document_uri (Hover ''file:///a.go'' (0, 0) :: nat request) = Some ''file:///a.go'' \<and>
   provider_failure env0 (window_of (activated stateA docA)) docA (Hover ''file:///a.go'' (0, 0)) =
     Some (Error ''no hover'') \<and>
   fst (dispatch env0 stateA (Hover ''file:///a.go'' (0, 0))) =
     Inr (Rejected (ResponseError InvalidRequest (Error ''no hover'') (Error ''no hover''))) \<and>
   effects (snd (dispatch env0 stateA (Hover ''file:///a.go'' (0, 0)))) =
     [BuildCode False, ShowMessage (Error ''no hover'') MessageType_Error]"
  using provider_failure_reported_once
          [of stateA "''file:///a.go''" docA "Hover ''file:///a.go'' (0, 0)" env0 "Error ''no hover''"]
  by (simp add: stateA_eq env0_def)

subsection \<open>Lookup of a document\<close>

text \<open>
  C5. When \<open>uri\<close> is not a key of the map of opened documents (never opened, or closed
  again), \<open>getOpenDocument\<close> throws the error "Document ... has not been opened.", and
  every operation on that document (the two notifications and ten requests through
  \<open>executeOnDocument\<close>, and \<open>executeCommand\<close> with \<open>uri\<close> as its second-to-last
  argument) fails with that error and leaves the state as it is. When \<open>uri\<close> is a key,
  the lookup returns the document stored under it.
\<close>

theorem lookup_fails_exactly_when_absent:
  "(openedDocumentUris st uri = None \<longrightarrow>
      getOpenDocument st uri = Inl (DocumentNotOpen uri) \<and>
      (\<forall>req. document_uri req = Some uri \<longrightarrow>
         failure (fst (dispatch env st req)) = Some (DocumentNotOpen uri) \<and>
         snd (dispatch env st req) = st)) \<and>
   (\<forall>doc. openedDocumentUris st uri = Some doc \<longrightarrow> getOpenDocument st uri = Inr doc)"
proof (intro conjI impI allI)
  assume closed: "openedDocumentUris st uri = None"
  show "getOpenDocument st uri = Inl (DocumentNotOpen uri)"
    using closed by (simp add: getOpenDocument_def DocumentNotOpen_def)
  fix req :: "'a request"
  assume named: "document_uri req = Some uri"
  show "failure (fst (dispatch env st req)) = Some (DocumentNotOpen uri)"
    using named closed
    by (cases req)
       (auto simp: returned_def void_def handler_defs didChangeTextDocument_def
          didSaveTextDocument_def executeOnDocument_closed executeCommand_def
          getOpenDocument_def DocumentNotOpen_def
          dest!: document_uri_ExecuteCommand)
  show "snd (dispatch env st req) = st"
    using named closed
    by (cases req)
       (auto simp: returned_def void_def handler_defs didChangeTextDocument_def
          didSaveTextDocument_def executeOnDocument_closed executeCommand_def
          getOpenDocument_def DocumentNotOpen_def
          dest!: document_uri_ExecuteCommand)
next
  fix doc assume "openedDocumentUris st uri = Some doc"
  then show "getOpenDocument st uri = Inr doc" by (simp add: getOpenDocument_def)
qed

theorem lookup_fails_exactly_when_absent_witness:
  "openedDocumentUris (didCloseTextDocument stateA ''file:///a.go'') ''file:///a.go'' = None \<and>
   getOpenDocument (didCloseTextDocument stateA ''file:///a.go'') ''file:///a.go'' =
     Inl (Error ''Document file:///a.go has not been opened.'') \<and>
   document_uri (DidSave ''file:///a.go'' :: nat request) = Some ''file:///a.go'' \<and>
   failure (fst (dispatch env0 (didCloseTextDocument stateA ''file:///a.go'') (DidSave ''file:///a.go''))) =
     Some (Error ''Document file:///a.go has not been opened.'') \<and>
   failure (fst (dispatch env0 (didCloseTextDocument stateA ''file:///a.go'')
                   (ExecuteCommand ''workspace-edit'' (Some [Str ''file:///a.go'', RangeVal range0])))) =
     Some (Error ''Document file:///a.go has not been opened.'') \<and>
   openedDocumentUris stateA ''file:///a.go'' = Some docA \<and>
   getOpenDocument stateA ''file:///a.go'' = Inr docA"
proof -
  let ?st = "didCloseTextDocument stateA ''file:///a.go''"
  have closed: "openedDocumentUris ?st ''file:///a.go'' = None"
    by (simp add: didCloseTextDocument_def Uri_parse_def Let_def)
  have opened: "openedDocumentUris stateA ''file:///a.go'' = Some docA"
    by (simp add: stateA_eq)
  from closed lookup_fails_exactly_when_absent [of ?st "''file:///a.go''" env0]
  have lookup: "getOpenDocument ?st ''file:///a.go'' = Inl (DocumentNotOpen ''file:///a.go'')"
    and every: "\<And>req. document_uri req = Some ''file:///a.go'' \<Longrightarrow>
                  failure (fst (dispatch env0 ?st req)) = Some (DocumentNotOpen ''file:///a.go'')"
    by blast+
  have save: "failure (fst (dispatch env0 ?st (DidSave ''file:///a.go''))) =
                Some (DocumentNotOpen ''file:///a.go'')"
    by (rule every) simp
  have command: "failure (fst (dispatch env0 ?st
                   (ExecuteCommand ''workspace-edit'' (Some [Str ''file:///a.go'', RangeVal range0])))) =
                Some (DocumentNotOpen ''file:///a.go'')"
    by (rule every) (simp add: arg_at_def)
  from opened lookup_fails_exactly_when_absent [of stateA "''file:///a.go''" env0]
  have found: "getOpenDocument stateA ''file:///a.go'' = Inr docA" by blast
  have name: "DocumentNotOpen ''file:///a.go'' = Error ''Document file:///a.go has not been opened.''"
    by (simp add: DocumentNotOpen_def)
  show ?thesis
    using closed opened lookup save command found unfolding name by simp
qed

subsection \<open>Saving\<close>

text \<open>
  C7. didSave on an open document: when \<open>document.save()\<close> succeeds, its effect is
  followed by one call \<open>buildCode(false)\<close> and by nothing else; when it fails,
  \<open>buildCode\<close> is not called (the failure is shown to the client instead). No build
  comes before the save.
\<close>

theorem didSave_builds_once_after_save:
  assumes "openedDocumentUris st uri = Some doc"
  shows "fst (didSaveTextDocument env st uri) = Inr () \<and>
         effects (snd (didSaveTextDocument env st uri)) =
           effects st @
             (case document_save env doc of
                None \<Rightarrow> [DocumentSave doc, BuildCode False]
              | Some err \<Rightarrow> [ShowMessage err MessageType_Error])"
  using assms
  by (simp add: didSaveTextDocument_def executeOnDocument_open emit_def activated_fields
        split: option.splits)

theorem didSave_builds_once_after_save_witness:
  "openedDocumentUris stateA ''file:///a.go'' = Some docA \<and>
   effects (snd (didSaveTextDocument env0 stateA ''file:///a.go'')) =
     [BuildCode False, DocumentSave docA, BuildCode False] \<and>
   effects (snd (didSaveTextDocument env1 stateA ''file:///a.go'')) =
     [BuildCode False, ShowMessage (Error ''disk full'') MessageType_Error]"
  using didSave_builds_once_after_save [of stateA "''file:///a.go''" docA env0]
        didSave_builds_once_after_save [of stateA "''file:///a.go''" docA env1]
  by (simp add: stateA_eq env0_def env1_def)

subsection \<open>Requests with a fixed shape\<close>

text \<open>
  C8. \<open>documentHighlight\<close> resolves to the empty list for every argument, in every
  state and with every collaborator; it leaves the state as it is.
\<close>

theorem documentHighlight_empty:
  "documentHighlight st uri position = (Resolved [], st) \<and>
   dispatch env st (DocumentHighlight uri position) = (Inr (Resolved (Several [])), st)"
  by (simp add: documentHighlight_def returned_def)

text \<open>
  C9. A completion request on an open document whose provider returns \<open>its\<close> resolves
  to the list with \<open>isIncomplete = false\<close> whose items are \<open>its\<close> followed by the
  proposals of the snippet provider.
\<close>

theorem completion_appends_snippets:
  assumes "openedDocumentUris st uri = Some doc"
      and "provideCompletionItems env (window_of (activated st doc)) doc position = Inr its"
  shows "fst (completion env st uri position) =
           Resolved \<lparr>isIncomplete = False, items = its @ proposals env\<rparr>"
  using assms by (simp add: completion_def executeOnDocument_pure_open)

theorem completion_appends_snippets_witness:
  "openedDocumentUris stateA ''file:///a.go'' = Some docA \<and>
   provideCompletionItems env0 (window_of (activated stateA docA)) docA (0, 0) = Inr [1, 2] \<and>
   fst (completion env0 stateA ''file:///a.go'' (0, 0)) =
     Resolved \<lparr>isIncomplete = False, items = [1, 2, 7, 8]\<rparr>"
  using completion_appends_snippets [of stateA "''file:///a.go''" docA env0 "(0, 0)" "[1, 2]"]
  by (simp add: stateA_eq env0_def)

text \<open>
  C10. \<open>codeLensResolve\<close> leaves the state as it is (no activation, no message to the
  client), its outcome does not depend on the map of opened documents, and with an active
  editor \<open>ed\<close> it is the outcome of the provider's \<open>resolveCodeLens\<close>, passed on as it
  is, on the lens whose \<open>document\<close> has been replaced by the document of \<open>ed\<close>,
  whatever the lens held before.
\<close>

theorem codeLensResolve_bypasses_pipeline:
  "snd (codeLensResolve env st lens) = st \<and>
   codeLensResolve env (st\<lparr>openedDocumentUris := m\<rparr>) lens =
     (fst (codeLensResolve env st lens), st\<lparr>openedDocumentUris := m\<rparr>) \<and>
   (\<forall>ed. activeTextEditor st = Some ed \<longrightarrow>
      fst (codeLensResolve env st lens) =
        settle (resolveCodeLens env (window_of st) (lens\<lparr>lens_document := Some (document ed)\<rparr>)))"
  by (simp add: codeLensResolve_def window_of_def split: option.splits)

theorem codeLensResolve_bypasses_pipeline_witness:
  "activeTextEditor stateAB = Some editorB \<and>
   codeLensResolve env0 stateAB \<lparr>lens_info = 5, lens_document = Some docA\<rparr> =
     (Resolved \<lparr>lens_info = 5, lens_document = Some docB\<rparr>, stateAB)"
  using codeLensResolve_bypasses_pipeline
          [of env0 stateAB "\<lparr>lens_info = 5, lens_document = Some docA\<rparr>"]
  by (simp add: stateAB_eq env0_def editorB_def prod_eq_iff)

subsection \<open>Opening and closing\<close>

lemma didOpen_fields:
  "openedDocumentUris (didOpenTextDocument st item) =
     (openedDocumentUris st)(item_uri item \<mapsto>
        \<lparr>doc_addr = next_addr st, doc_uri = Uri (Suc (next_addr st)) (item_uri item), doc_item = item\<rparr>)"
  "visibleTextEditors (didOpenTextDocument st item) =
     visibleTextEditors st @
       [\<lparr>editor_addr = Suc (Suc (next_addr st)),
         document = \<lparr>doc_addr = next_addr st, doc_uri = Uri (Suc (next_addr st)) (item_uri item), doc_item = item\<rparr>\<rparr>]"
  "activeTextEditor (didOpenTextDocument st item) =
     Some \<lparr>editor_addr = Suc (Suc (next_addr st)),
         document = \<lparr>doc_addr = next_addr st, doc_uri = Uri (Suc (next_addr st)) (item_uri item), doc_item = item\<rparr>\<rparr>"
  "hasStartedInitialBuild (didOpenTextDocument st item)"
  "next_addr (didOpenTextDocument st item) = Suc (Suc (Suc (next_addr st)))"
  "effects (didOpenTextDocument st item) = effects st @ [BuildCode False]"
  "selection (didOpenTextDocument st item) = selection st"
  by (simp_all add: didOpenTextDocument_def new_TextDocument_def new_TextEditor_def Uri_parse_def
        emit_def Let_def)

text \<open>
  C1. The specification has \<open>buildCode\<close> called by the first didOpen only. The code
  calls it on every didOpen: the second one, which finds \<open>hasStartedInitialBuild\<close>
  set, appends a call of its own, so that after \<open>itemA\<close> and \<open>itemB\<close> have been
  opened there are two calls.
\<close>

theorem didOpen_builds_on_every_open:
  "hasStartedInitialBuild stateA \<and>
   build_calls (effects stateA) = 1 \<and>
   effects (didOpenTextDocument stateA itemB) = effects stateA @ [BuildCode False] \<and>
   build_calls (effects (didOpenTextDocument stateA itemB)) = 2"
  by (simp add: didOpen_fields) (simp add: stateA_eq build_calls_def)

lemma first_index_none: "\<forall>x \<in> set xs. \<not> P x \<Longrightarrow> first_index P xs = length xs"
  by (induction xs) auto

text \<open>When an editor passes the test, the splice keeps the editors before it and no other.\<close>

lemma splice_from_first_index:
  "splice_from (first_index P xs) xs = takeWhile (\<lambda>x. \<not> P x) xs"
  by (induction xs) (auto simp: splice_from_def)

text \<open>
  C2. The specification has didClose remove the editor of the closed document, and only
  that one, from the visible editors. In the code, after \<open>itemA\<close> and \<open>itemB\<close> have been opened,
  closing A removes A from the map and leaves both editors visible: no editor's
  \<open>document.uri\<close> is the object that \<open>Uri.parse\<close> has just built. Were the editors
  compared by the text of the URI, the loop would stop at A's editor and the splice would
  remove it together with B's editor behind it.
\<close>

theorem didClose_leaves_editor_visible:
  "openedDocumentUris (didCloseTextDocument stateAB ''file:///a.go'') ''file:///a.go'' = None \<and>
   openedDocumentUris (didCloseTextDocument stateAB ''file:///a.go'') ''file:///b.go'' = Some docB \<and>
   visibleTextEditors stateAB = [editorA, editorB] \<and>
   visibleTextEditors (didCloseTextDocument stateAB ''file:///a.go'') = [editorA, editorB] \<and>
   splice_from
     (first_index (\<lambda>editor. uri_value (doc_uri (document editor)) = ''file:///a.go'')
        (visibleTextEditors stateAB))
     (visibleTextEditors stateAB) = []"
  by (simp add: didCloseTextDocument_def Uri_parse_def stateAB_eq strict_eq_def splice_from_def
        editorA_def editorB_def docA_def docB_def)

subsection \<open>The invariant of the session\<close>

lemma find_Some_document:
  assumes "ed \<in> set eds"
  shows "\<exists>ed'. find (\<lambda>editor. strict_eq (doc_uri (document editor)) (doc_uri (document ed))) eds = Some ed'
           \<and> ed' \<in> set eds \<and> uri_addr (doc_uri (document ed')) = uri_addr (doc_uri (document ed))"
proof (cases "find (\<lambda>editor. strict_eq (doc_uri (document editor)) (doc_uri (document ed))) eds")
  case None
  then show ?thesis using assms by (auto simp: find_None_iff strict_eq_def)
next
  case (Some ed')
  then show ?thesis by (auto simp: find_Some_iff strict_eq_def)
qed

text \<open>Under the invariant, activation of an open document finds an editor of that document.\<close>

lemma session_inv_find:
  assumes "session_inv st" and "openedDocumentUris st uri = Some doc"
  shows "\<exists>ed. find (\<lambda>editor. strict_eq (doc_uri (document editor)) (doc_uri doc)) (visibleTextEditors st) = Some ed
           \<and> ed \<in> set (visibleTextEditors st) \<and> document ed = doc"
proof -
  from assms obtain ed0 where ed0: "ed0 \<in> set (visibleTextEditors st)" "document ed0 = doc"
    unfolding session_inv_def by blast
  from find_Some_document [OF ed0(1)] obtain ed where
    ed: "find (\<lambda>editor. strict_eq (doc_uri (document editor)) (doc_uri doc)) (visibleTextEditors st) = Some ed"
        "ed \<in> set (visibleTextEditors st)"
        "uri_addr (doc_uri (document ed)) = uri_addr (doc_uri doc)"
    using ed0(2) by auto
  from assms(1) ed(2) ed0(1) ed(3) ed0(2) have "document ed = doc"
    unfolding session_inv_def by metis
  with ed show ?thesis by blast
qed

lemma session_inv_opened:
  assumes "session_inv st" and "openedDocumentUris st uri = Some doc"
  shows "hasStartedInitialBuild st"
  using assms unfolding session_inv_def by auto

lemma kept_session_inv:
  assumes "session_inv st" and "kept st st'"
  shows "session_inv st'"
proof -
  from assms(2) have same:
    "openedDocumentUris st' = openedDocumentUris st"
    "visibleTextEditors st' = visibleTextEditors st"
    "next_addr st \<le> next_addr st'"
    "hasStartedInitialBuild st' = hasStartedInitialBuild st"
    unfolding kept_def by auto
  from assms(2) consider "activeTextEditor st' = activeTextEditor st"
    | uri doc where "openedDocumentUris st uri = Some doc"
        "activeTextEditor st' =
           find (\<lambda>editor. strict_eq (doc_uri (document editor)) (doc_uri doc)) (visibleTextEditors st)"
    unfolding kept_def by blast
  then have active: "hasStartedInitialBuild st' = (activeTextEditor st' \<noteq> None)"
  proof cases
    case 1
    with assms(1) same(4) show ?thesis unfolding session_inv_def by simp
  next
    case 2
    from session_inv_find [OF assms(1) 2(1)] 2(2) have "activeTextEditor st' \<noteq> None" by auto
    moreover from session_inv_opened [OF assms(1) 2(1)] same(4) have "hasStartedInitialBuild st'" by simp
    ultimately show ?thesis by simp
  qed
  from assms(1) have fresh: "\<forall>ed \<in> set (visibleTextEditors st). uri_addr (doc_uri (document ed)) < next_addr st"
    unfolding session_inv_def by blast
  with same(3) have "\<forall>ed \<in> set (visibleTextEditors st). uri_addr (doc_uri (document ed)) < next_addr st'"
    by fastforce
  with assms(1) same active show ?thesis
    unfolding session_inv_def by simp
qed

text \<open>
  In a state of the session, didClose finds no editor: the \<open>Uri\<close> it compares with is
  newer than every \<open>Uri\<close> of a visible editor's document.
\<close>

lemma didClose_session:
  assumes "session_inv st"
  shows "didCloseTextDocument st uri =
           st\<lparr>openedDocumentUris := (openedDocumentUris st)(uri := None), next_addr := Suc (next_addr st)\<rparr>"
proof -
  from assms have "\<forall>ed \<in> set (visibleTextEditors st). uri_addr (doc_uri (document ed)) \<noteq> next_addr st"
    unfolding session_inv_def by fastforce
  then have "first_index (\<lambda>editor. strict_eq (doc_uri (document editor)) (Uri (next_addr st) uri))
               (visibleTextEditors st) = length (visibleTextEditors st)"
    by (intro first_index_none) (simp add: strict_eq_def)
  then show ?thesis
    by (simp add: didCloseTextDocument_def Uri_parse_def)
qed

lemma didClose_session_inv:
  assumes "session_inv st"
  shows "session_inv (didCloseTextDocument st uri)"
proof -
  have "session_inv (st\<lparr>openedDocumentUris := (openedDocumentUris st)(uri := None), next_addr := Suc (next_addr st)\<rparr>)"
    using assms unfolding session_inv_def
    by (auto simp: less_Suc_eq split: if_splits)
  then show ?thesis by (simp add: didClose_session [OF assms])
qed

lemma didOpen_session_inv:
  assumes "session_inv st"
  shows "session_inv (didOpenTextDocument st item)"
proof -
  from assms have fresh: "\<forall>ed \<in> set (visibleTextEditors st). uri_addr (doc_uri (document ed)) < next_addr st"
    and reg: "\<forall>uri doc. openedDocumentUris st uri = Some doc \<longrightarrow>
         (\<exists>ed \<in> set (visibleTextEditors st). document ed = doc)"
    and inj: "\<forall>e1 \<in> set (visibleTextEditors st). \<forall>e2 \<in> set (visibleTextEditors st).
         uri_addr (doc_uri (document e1)) = uri_addr (doc_uri (document e2)) \<longrightarrow>
         document e1 = document e2"
    unfolding session_inv_def by blast+
  have 1: "\<forall>uri doc. openedDocumentUris (didOpenTextDocument st item) uri = Some doc \<longrightarrow>
         (\<exists>ed \<in> set (visibleTextEditors (didOpenTextDocument st item)). document ed = doc)"
    using reg by (auto simp: didOpen_fields)
  have 2: "\<forall>ed \<in> set (visibleTextEditors (didOpenTextDocument st item)).
         uri_addr (doc_uri (document ed)) < next_addr (didOpenTextDocument st item)"
    using fresh by (auto simp: didOpen_fields less_Suc_eq)
  have 3: "\<forall>e1 \<in> set (visibleTextEditors (didOpenTextDocument st item)).
         \<forall>e2 \<in> set (visibleTextEditors (didOpenTextDocument st item)).
         uri_addr (doc_uri (document e1)) = uri_addr (doc_uri (document e2)) \<longrightarrow>
         document e1 = document e2"
    using fresh inj by (fastforce simp: didOpen_fields)
  show ?thesis
    unfolding session_inv_def using 1 2 3 by (simp add: didOpen_fields)
qed

lemma kept_refl: "kept st st"
  by (simp add: kept_def)

lemma kept_emit: "kept st st' \<Longrightarrow> kept st (emit es st')"
  by (simp add: kept_def emit_def)

lemma kept_activateEditor:
  assumes "openedDocumentUris st uri = Some doc"
  shows "kept st (snd (activateEditor st doc sel))"
  unfolding kept_def using assms by (simp add: activateEditor_fields) blast

lemma kept_activated:
  "openedDocumentUris st uri = Some doc \<Longrightarrow> kept st (activated st doc)"
  unfolding activated_def by (rule kept_activateEditor)

lemma kept_executeOnDocument: "kept st (snd (executeOnDocument st name uri lam))"
proof (cases "openedDocumentUris st uri")
  case None
  then show ?thesis by (simp add: executeOnDocument_closed kept_refl)
next
  case (Some doc)
  then show ?thesis
    by (auto simp: executeOnDocument_open kept_emit kept_activated split: prod.splits sum.splits)
qed

lemma kept_executeCommand: "kept st (snd (executeCommand env st command arguments))"
proof (cases arguments)
  case None
  then show ?thesis by (simp add: executeCommand_def kept_refl)
next
  case (Some args)
  show ?thesis
  proof (cases "document_uri (ExecuteCommand command arguments :: 'b request)")
    case None
    then show ?thesis using Some
      by (auto simp: executeCommand_def kept_refl split: js_value.splits)
  next
    case (Some uri)
    with \<open>arguments = Some args\<close> have key: "arg_at args (int (length args) - 2) = Str uri"
      by (auto split: js_value.splits)
    show ?thesis
    proof (cases "openedDocumentUris st uri")
      case None
      then show ?thesis using key \<open>arguments = Some args\<close>
        by (simp add: executeCommand_def getOpenDocument_def kept_refl)
    next
      case (Some doc)
      from kept_activateEditor [OF Some]
      have "kept st (snd (activateEditor st doc (arg_at args (int (length args) - 1))))" .
      then show ?thesis using key Some \<open>arguments = Some args\<close>
        by (auto simp: executeCommand_def getOpenDocument_def kept_emit split: prod.splits sum.splits)
    qed
  qed
qed

lemma kept_initialize: "kept st (snd (initialize st params))"
  by (simp add: initialize_def Uri_parse_def kept_def)

lemma kept_codeLensResolve: "kept st (snd (codeLensResolve env st lens))"
  by (simp add: codeLensResolve_def kept_refl split: option.splits)

text \<open>Every operation but didOpen and didClose keeps the session.\<close>

lemma kept_dispatch:
  assumes "\<not> is_DidOpen req" and "\<forall>uri. req \<noteq> DidClose uri"
  shows "kept st (snd (dispatch env st req))"
proof (cases req)
  case (DidChange uri contentChanges version)
  have "snd (didChangeTextDocument env st uri contentChanges version) =
          snd (executeOnDocument st ''onDidCloseTextDocument'' uri
             (\<lambda>w doc. case document_apply env doc contentChanges version of
                         None \<Rightarrow> ([DocumentApply doc contentChanges version], Inr ())
                       | Some err \<Rightarrow> ([], Inl err)))"
    by (simp add: didChangeTextDocument_def split: prod.splits sum.splits)
  then show ?thesis using DidChange by (simp add: void_def kept_executeOnDocument)
next
  case (DidSave uri)
  let ?r = "executeOnDocument st ''onDidSaveTextDocument'' uri
             (\<lambda>w doc. case document_save env doc of
                         None \<Rightarrow> ([DocumentSave doc], Inr ())
                       | Some err \<Rightarrow> ([], Inl err))"
  have "kept st (snd ?r)" by (rule kept_executeOnDocument)
  then have "kept st (snd (didSaveTextDocument env st uri))"
    by (auto simp: didSaveTextDocument_def kept_emit split: prod.splits sum.splits promise.splits)
  then show ?thesis using DidSave by (simp add: void_def)
qed (use assms in \<open>simp_all add: returned_def handler_defs snd_case_prod_keep
       kept_executeOnDocument kept_executeCommand kept_initialize kept_codeLensResolve kept_refl
       documentHighlight_def workspaceSymbol_def\<close>)

lemma dispatch_session_inv:
  assumes "session_inv st"
  shows "session_inv (snd (dispatch env st req))"
proof (cases "is_DidOpen req \<or> (\<exists>uri. req = DidClose uri)")
  case True
  then show ?thesis using assms
    by (cases req) (auto simp: didOpen_session_inv didClose_session_inv)
next
  case False
  then have "kept st (snd (dispatch env st req))" by (intro kept_dispatch) auto
  with assms show ?thesis by (rule kept_session_inv)
qed

lemma run_session_inv: "session_inv st \<Longrightarrow> session_inv (run rs st)"
  by (induction rs arbitrary: st) (auto simp: dispatch_session_inv)

lemma session_inv_start: "session_inv server_start"
  by (simp add: session_inv_def server_start_def)

text \<open>The build flag is set by didOpen and by nothing else, and is never cleared.\<close>

lemma dispatch_flag:
  "hasStartedInitialBuild (snd (dispatch env st req)) = (hasStartedInitialBuild st \<or> is_DidOpen req)"
proof (cases "is_DidOpen req \<or> (\<exists>uri. req = DidClose uri)")
  case True
  then show ?thesis
    by (cases req) (auto simp: didOpen_fields didCloseTextDocument_def Uri_parse_def Let_def)
next
  case False
  then have "kept st (snd (dispatch env st req))" by (intro kept_dispatch) auto
  with False show ?thesis by (simp add: kept_def)
qed

lemma run_flag:
  "hasStartedInitialBuild (run rs st) = (hasStartedInitialBuild st \<or> (\<exists>x \<in> set rs. is_DidOpen (snd x)))"
  by (induction rs arbitrary: st) (auto simp: dispatch_flag)

text \<open>
  C3. In the state reached from server start by any sequence of public operations, with
  any behaviour of the collaborators, an editor is active exactly when the sequence
  contains a didOpen: none before the first didOpen, one ever after.
\<close>

theorem active_editor_iff_opened:
  "(\<exists>ed. activeTextEditor (run rs server_start) = Some ed) = (\<exists>x \<in> set rs. is_DidOpen (snd x))"
proof -
  have "session_inv (run rs (server_start :: 'a server_state))"
    by (rule run_session_inv [OF session_inv_start])
  then have "hasStartedInitialBuild (run rs (server_start :: 'a server_state)) =
               (activeTextEditor (run rs (server_start :: 'a server_state)) \<noteq> None)"
    unfolding session_inv_def by blast
  then show ?thesis by (simp add: run_flag server_start_def)
qed

theorem active_editor_iff_opened_witness:
  "activeTextEditor (run [(env0, Hover ''file:///a.go'' (0, 0)), (env0, DidClose ''file:///a.go'')]
                       server_start) = None \<and>
   (\<exists>ed. activeTextEditor
            (run [(env0, DidOpen itemA), (env0, DidOpen itemB), (env0, DidClose ''file:///a.go''),
                  (env0, Hover ''file:///b.go'' (0, 0)), (env0, DidClose ''file:///b.go''),
                  (env0, CodeLensRequest ''file:///b.go'')]
               server_start) = Some ed)"
  using active_editor_iff_opened
          [of "[(env0, Hover ''file:///a.go'' (0, 0)), (env0, DidClose ''file:///a.go'')]"]
        active_editor_iff_opened
          [of "[(env0, DidOpen itemA), (env0, DidOpen itemB), (env0, DidClose ''file:///a.go''),
                (env0, Hover ''file:///b.go'' (0, 0)), (env0, DidClose ''file:///b.go''),
                (env0, CodeLensRequest ''file:///b.go'')]"]
  by simp

subsection \<open>Commands\<close>

lemma arg_at_second_to_last: "arg_at (args @ [x, y]) (int (length (args @ [x, y])) - 2) = x"
  by (simp add: arg_at_def nth_append)

lemma arg_at_last: "arg_at (args @ [x, y]) (int (length (args @ [x, y])) - 1) = y"
proof -
  have "int (length (args @ [x, y])) - 1 = int (Suc (length args))" by simp
  then show ?thesis by (simp only: arg_at_def nat_int) (simp add: nth_append)
qed

lemma slice_0_minus2_append: "slice_0_minus2 (args @ [x, y]) = args"
  by (simp add: slice_0_minus2_def)

text \<open>
  C6. In every state \<open>st\<close> that the server can reach, \<open>executeCommand\<close> with the
  arguments \<open>args @ [uri, rng]\<close> (for \<open>args = [a, b]\<close>: \<open>[a, b, uri, rng]\<close>), where
  \<open>uri\<close> names the open document \<open>doc\<close>, makes a visible editor of \<open>doc\<close> the active
  one, sets that editor's selection to \<open>rng\<close>, and then runs the named command with
  exactly \<open>args\<close>: the command finds the editor active and the selection set.
\<close>

theorem executeCommand_reactivates:
  assumes st: "st = run rs server_start"
      and "openedDocumentUris st uri = Some doc"
  shows "\<exists>ed. ed \<in> set (visibleTextEditors st) \<and> document ed = doc \<and>
           executeCommand env st command (Some (args @ [Str uri, RangeVal rng])) =
             (settle (commands_executeCommand env
                        (Some ed, Some (Selection (Some (range_start rng)) (Some (range_end rng))))
                        command args),
              emit [CommandExecuted command args]
                (st\<lparr>activeTextEditor := Some ed,
                    selection := (selection st)
                      (editor_addr ed \<mapsto> Selection (Some (range_start rng)) (Some (range_end rng)))\<rparr>))"
proof -
  have "session_inv st" unfolding st by (rule run_session_inv [OF session_inv_start])
  from session_inv_find [OF this assms(2)] obtain ed where
    ed: "find (\<lambda>editor. strict_eq (doc_uri (document editor)) (doc_uri doc)) (visibleTextEditors st) = Some ed"
        "ed \<in> set (visibleTextEditors st)" "document ed = doc"
    by blast
  have act: "activateEditor st doc (RangeVal rng) =
          (Inr doc, st\<lparr>activeTextEditor := Some ed,
                    selection := (selection st)
                      (editor_addr ed \<mapsto> Selection (Some (range_start rng)) (Some (range_end rng)))\<rparr>)"
    using ed(1) by (simp add: activateEditor_def)
  have "executeCommand env st command (Some (args @ [Str uri, RangeVal rng])) =
             (settle (commands_executeCommand env
                        (Some ed, Some (Selection (Some (range_start rng)) (Some (range_end rng))))
                        command args),
              emit [CommandExecuted command args]
                (st\<lparr>activeTextEditor := Some ed,
                    selection := (selection st)
                      (editor_addr ed \<mapsto> Selection (Some (range_start rng)) (Some (range_end rng)))\<rparr>))"
    unfolding executeCommand_def
    using assms(2)
    by (simp only: option.case arg_at_second_to_last arg_at_last slice_0_minus2_append js_value.case
          getOpenDocument_def sum.case act prod.case)
       (simp add: window_of_def)
  with ed(2,3) show ?thesis by blast
qed

theorem executeCommand_reactivates_witness:
  "stateAB = run [(env0, DidOpen itemA), (env0, DidOpen itemB)] server_start \<and>
   openedDocumentUris stateAB ''file:///a.go'' = Some docA \<and>
   activeTextEditor stateAB = Some editorB \<and>
   executeCommand env0 stateAB ''workspace-edit''
       (Some [Bool True, Str ''x'', Str ''file:///a.go'', RangeVal range0]) =
     (Resolved 2,
      emit [CommandExecuted ''workspace-edit'' [Bool True, Str ''x'']]
        (stateAB\<lparr>activeTextEditor := Some editorA,
                 selection := [2 \<mapsto> Selection (Some (1, 0)) (Some (1, 7))]\<rparr>))"
proof -
  have reach: "stateAB = run [(env0, DidOpen itemA), (env0, DidOpen itemB)] server_start"
    by (simp add: stateAB_def stateA_def)
  have opened: "openedDocumentUris stateAB ''file:///a.go'' = Some docA"
    by (simp add: stateAB_eq)
  from executeCommand_reactivates [OF reach opened, of env0 "''workspace-edit''" "[Bool True, Str ''x'']" range0]
  obtain ed where ed: "ed \<in> set (visibleTextEditors stateAB)" "document ed = docA"
    and run: "executeCommand env0 stateAB ''workspace-edit''
                (Some ([Bool True, Str ''x''] @ [Str ''file:///a.go'', RangeVal range0])) =
              (settle (commands_executeCommand env0
                        (Some ed, Some (Selection (Some (range_start range0)) (Some (range_end range0))))
                        ''workspace-edit'' [Bool True, Str ''x'']),
               emit [CommandExecuted ''workspace-edit'' [Bool True, Str ''x'']]
                 (stateAB\<lparr>activeTextEditor := Some ed,
                    selection := (selection stateAB)
                      (editor_addr ed \<mapsto> Selection (Some (range_start range0)) (Some (range_end range0)))\<rparr>))"
    by auto
  from ed have "ed = editorA"
    by (auto simp: stateAB_eq editorA_def editorB_def docA_def docB_def)
  with run have command:
    "executeCommand env0 stateAB ''workspace-edit''
       (Some [Bool True, Str ''x'', Str ''file:///a.go'', RangeVal range0]) =
     (Resolved 2,
      emit [CommandExecuted ''workspace-edit'' [Bool True, Str ''x'']]
        (stateAB\<lparr>activeTextEditor := Some editorA,
                 selection := [2 \<mapsto> Selection (Some (1, 0)) (Some (1, 7))]\<rparr>))"
    by (simp add: env0_def range0_def) (simp add: stateAB_eq editorA_def)
  have active: "activeTextEditor stateAB = Some editorB"
    by (simp add: stateAB_eq)
  from reach opened active command show ?thesis by (intro conjI)
qed

end
